theory Spec2Isabelle
  imports Complex_Main
begin

section \<open>The TextAnimator component of src/app/components/TextSlangTranslator.tsx\<close>

text \<open>
  The component is a React function component. Three facts of the runtime shape the model.

  \<^item> A handler (\<open>handleTranslate\<close>, \<open>handleLevelSelect\<close>, \<open>handleCopy\<close>,
    \<open>animateText\<close>) is a closure created by one render. The state variables it reads
    (\<open>inputText\<close>, \<open>loading\<close>, \<open>selectedLevel\<close>, \<open>isClient\<close>,
    \<open>translatedText\<close>) are the constants of that render; a setter called meanwhile
    changes the component's state, never those constants. Every handler below therefore
    takes the values of its render as a first argument \<open>c\<close>, and writes to the live
    component \<open>w\<close>.
  \<^item> A ref (\<open>abortControllerRef\<close>, \<open>textRef\<close>) is one mutable cell shared by all
    renders: it is read and written in the live component.
  \<^item> An \<open>async\<close> function runs up to its first \<open>await\<close>, is suspended, and is resumed
    by a later event; other handlers run in between. A suspended call is a value kept in
    the component's world, resumed by an event of its own.
\<close>

subsection \<open>Strings\<close>

text \<open>
  A JavaScript string is the list of its code units. \<^typ>\<open>char\<close> covers the code units
  below 256; the white space that \<open>String.prototype.trim\<close> removes in that range is
  TAB, LF, VT, FF, CR, SPACE and NBSP.
\<close>

definition js_whitespace :: "char \<Rightarrow> bool" where
  "js_whitespace ch \<longleftrightarrow> of_char ch \<in> {9, 10, 11, 12, 13, 32, 160 :: nat}"

definition trim :: "string \<Rightarrow> string" where
  "trim s = rev (dropWhile js_whitespace (rev (dropWhile js_whitespace s)))"

text \<open>The decimal numeral that a template literal prints for a non-negative integer.\<close>

definition digit_char :: "nat \<Rightarrow> char" where
  "digit_char d = char_of (48 + d)"

fun show_nat :: "nat \<Rightarrow> string" where
  "show_nat n = (if n < 10 then [digit_char n] else show_nat (n div 10) @ [digit_char (n mod 10)])"

declare show_nat.simps [simp del]

subsection \<open>The catalog of slang levels\<close>

record SlangLevel =
  level_id :: string
  label :: string
  prompt :: string

definition slangLevels :: "SlangLevel list" where
  "slangLevels =
    [\<lparr>level_id = ''mild'', label = ''Mild Slang'', prompt = ''Convert to mild internet slang''\<rparr>,
     \<lparr>level_id = ''medium'', label = ''Medium Slang'',
      prompt = ''Use moderate internet slang and abbreviations''\<rparr>,
     \<lparr>level_id = ''heavy'', label = ''Heavy Slang'',
      prompt = ''Use heavy internet slang and abbreviations''\<rparr>,
     \<lparr>level_id = ''extreme'', label = ''Extreme Slang'',
      prompt = ''Use extreme internet slang with lots of emoji''\<rparr>,
     \<lparr>level_id = ''crazy'', label = ''Crazy Slang'',
      prompt = ''Go absolutely wild with internet slang and emoji''\<rparr>]"

subsection \<open>State of the component\<close>

text \<open>The eight \<open>useState\<close> cells, with the initial values of lines 23 to 30.\<close>

record ui_state =
  inputText :: string
  translatedText :: string
  loading :: bool
  selectedLevel :: string
  isFilterOpen :: bool
  copied :: bool
  isClient :: bool
  error :: string

definition initial_ui :: ui_state where
  "initial_ui = \<lparr>inputText = [], translatedText = [], loading = False,
     selectedLevel = ''medium'', isFilterOpen = False, copied = False, isClient = False,
     error = []\<rparr>"

text \<open>A thrown value: its \<open>name\<close> and its \<open>message\<close>.\<close>

datatype js_error = JsError string string

fun err_name :: "js_error \<Rightarrow> string" where
  "err_name (JsError n m) = n"

fun err_message :: "js_error \<Rightarrow> string" where
  "err_message (JsError n m) = m"

text \<open>The body of the POST request and the signal bound to it (lines 97 to 105).\<close>

record fetch_call =
  body_text :: string
  body_level :: string
  signal :: nat

text \<open>
  A call of \<open>handleTranslate\<close> suspended at line 97 or 111: the controller whose signal
  its request carries, and the render values the call closed over.
\<close>

record attempt =
  ctrl :: nat
  closure :: ui_state

text \<open>
  What the network hands back to a request that was not aborted: \<open>fetch\<close> rejects, or
  resolves with a status. Then \<open>response.json()\<close> rejects (a body that does not
  parse); or it resolves with \<open>null\<close>, and reading \<open>data.translatedText\<close> at line
  113 throws a TypeError, whose message the engine chooses; or it resolves with another
  value, whose field \<open>translatedText\<close> is a string or is absent.
\<close>

datatype json_outcome = JsonRejects js_error | JsonNull string | Json "string option"

datatype outcome = FetchRejects js_error | Response nat json_outcome

text \<open>An element of the page, taken as its text content.\<close>

type_synonym element = string

text \<open>The style properties that the animation writes on an element.\<close>

record visual =
  y :: rat
  opacity :: rat

text \<open>One call \<open>gsap.fromTo(elements, {y, opacity}, {y, opacity, duration, stagger, ease})\<close>.\<close>

record gsap_call =
  targets :: "element list"
  fromVars :: visual
  toVars :: visual
  duration :: rat
  stagger :: rat
  ease :: string

text \<open>Callbacks handed to \<open>setTimeout\<close> and \<open>requestAnimationFrame\<close>.\<close>

datatype callback = AnimateText ui_state | ResetCopied

datatype task = AnimationFrame ui_state | Timeout nat callback

text \<open>
  The live component: its state, its two refs, the controllers created and aborted so far,
  the suspended calls, and the effects it has requested from its host. \<open>textRef\<close>
  holds the children of the element that carries the ref, or \<open>None\<close> when the ref is
  null. The first commit has attached the ref to an element without children.
\<close>

record world =
  ui :: ui_state
  abortControllerRef :: "nat option"
  textRef :: "element list option"
  controllers :: nat
  aborted :: "nat list"
  inflight :: "attempt list"
  fetches :: "fetch_call list"
  clipboard :: "string list"
  tasks :: "task list"
  gsap_calls :: "gsap_call list"

definition initial_world :: world where
  "initial_world = \<lparr>ui = initial_ui, abortControllerRef = None, textRef = Some [],
     controllers = 0, aborted = [], inflight = [], fetches = [], clipboard = [], tasks = [],
     gsap_calls = []\<rparr>"

subsection \<open>Setters\<close>

definition setInputText :: "string \<Rightarrow> world \<Rightarrow> world" where
  "setInputText v w = w\<lparr>ui := (ui w)\<lparr>inputText := v\<rparr>\<rparr>"

definition setTranslatedText :: "string \<Rightarrow> world \<Rightarrow> world" where
  "setTranslatedText v w = w\<lparr>ui := (ui w)\<lparr>translatedText := v\<rparr>\<rparr>"

definition setLoading :: "bool \<Rightarrow> world \<Rightarrow> world" where
  "setLoading v w = w\<lparr>ui := (ui w)\<lparr>loading := v\<rparr>\<rparr>"

definition setSelectedLevel :: "string \<Rightarrow> world \<Rightarrow> world" where
  "setSelectedLevel v w = w\<lparr>ui := (ui w)\<lparr>selectedLevel := v\<rparr>\<rparr>"

definition setIsFilterOpen :: "bool \<Rightarrow> world \<Rightarrow> world" where
  "setIsFilterOpen v w = w\<lparr>ui := (ui w)\<lparr>isFilterOpen := v\<rparr>\<rparr>"

definition setCopied :: "bool \<Rightarrow> world \<Rightarrow> world" where
  "setCopied v w = w\<lparr>ui := (ui w)\<lparr>copied := v\<rparr>\<rparr>"

definition setIsClient :: "bool \<Rightarrow> world \<Rightarrow> world" where
  "setIsClient v w = w\<lparr>ui := (ui w)\<lparr>isClient := v\<rparr>\<rparr>"

definition setError :: "string \<Rightarrow> world \<Rightarrow> world" where
  "setError v w = w\<lparr>ui := (ui w)\<lparr>error := v\<rparr>\<rparr>"

subsection \<open>handleTranslate (lines 81 to 136)\<close>

text \<open>\<open>controller.abort()\<close>: the controller's signal is aborted from now on.\<close>

definition abort :: "nat \<Rightarrow> world \<Rightarrow> world" where
  "abort h w = (if h \<in> set (aborted w) then w else w\<lparr>aborted := h # aborted w\<rparr>)"

text \<open>Line 94: \<open>slangLevels.find(level => level.id === selectedLevel)\<close>.\<close>

definition find_level :: "string \<Rightarrow> SlangLevel option" where
  "find_level sel = find (\<lambda>level. level_id level = sel) slangLevels"

text \<open>Lines 126 to 131: the \<open>catch\<close> block.\<close>

definition catch_block :: "js_error \<Rightarrow> world \<Rightarrow> world" where
  "catch_block e w =
     (if err_name e = ''AbortError'' then w
      else setTranslatedText []
             (setError (if err_message e = [] then ''Translation failed. Please try again.''
                        else err_message e) w))"

text \<open>
  Lines 132 to 135: the \<open>finally\<close> block. It runs after the \<open>try\<close> block, after the
  \<open>catch\<close> block, and also after the \<open>return\<close> of line 127.
\<close>

definition finally_block :: "world \<Rightarrow> world" where
  "finally_block w = (setLoading False w)\<lparr>abortControllerRef := None\<rparr>"

text \<open>
  Lines 81 to 105: the call up to its first \<open>await\<close>. The level is looked up with the
  \<open>selectedLevel\<close> of the render \<open>c\<close>. An unknown level throws before any request is
  made, so that call ends at once through \<open>catch\<close> and \<open>finally\<close>.
\<close>

definition handleTranslate :: "ui_state \<Rightarrow> bool \<Rightarrow> world \<Rightarrow> world" where
  "handleTranslate c forceTranslate w =
     (if trim (inputText c) = [] \<or> (loading c \<and> \<not> forceTranslate) then w
      else
        let w1 = (case abortControllerRef w of None \<Rightarrow> w | Some h \<Rightarrow> abort h w);
            h = controllers w1;
            w2 = w1\<lparr>abortControllerRef := Some h, controllers := Suc h\<rparr>;
            w3 = setError [] (setLoading True w2)
        in case find_level (selectedLevel c) of
             None \<Rightarrow> finally_block (catch_block (JsError ''Error'' ''Invalid slang level'') w3)
           | Some selectedLevelConfig \<Rightarrow>
               w3\<lparr>fetches := fetches w3 @
                     [\<lparr>body_text = inputText c, body_level = prompt selectedLevelConfig,
                       signal = h\<rparr>],
                  inflight := inflight w3 @ [\<lparr>ctrl = h, closure = c\<rparr>]\<rparr>)"

text \<open>\<open>response.ok\<close>: the status is in the range 200 to 299.\<close>

definition ok :: "nat \<Rightarrow> bool" where
  "ok status \<longleftrightarrow> 200 \<le> status \<and> status \<le> 299"

text \<open>
  What the suspended call is resumed with. Once its controller has been aborted, the
  pending \<open>fetch\<close> (or the pending read of the body) rejects with an \<open>AbortError\<close>,
  whatever the network had in store; the message of that error is never read.
\<close>

definition settle :: "world \<Rightarrow> attempt \<Rightarrow> outcome \<Rightarrow> outcome" where
  "settle w a out =
     (if ctrl a \<in> set (aborted w) then FetchRejects (JsError ''AbortError'' ''signal is aborted'')
      else out)"

text \<open>
  Lines 97 to 115: the rest of the \<open>try\<close> block up to line 117, as a value: the error
  thrown, or the text that line 117 stores. An empty string is falsy at line 113.
  Between the \<open>await\<close> of line 97 and that of line 111 the call reads the response
  only and writes nothing, so the two resumptions are taken as one.
\<close>

fun try_body :: "outcome \<Rightarrow> js_error + string" where
  "try_body (FetchRejects e) = Inl e"
| "try_body (Response status body) =
     (if \<not> ok status then Inl (JsError ''Error'' (''Translation failed: '' @ show_nat status))
      else case body of
             JsonRejects e \<Rightarrow> Inl e
           | JsonNull m \<Rightarrow> Inl (JsError ''TypeError'' m)
           | Json None \<Rightarrow> Inl (JsError ''Error'' ''No translation received'')
           | Json (Some t) \<Rightarrow>
               if t = [] then Inl (JsError ''Error'' ''No translation received'') else Inr t)"

text \<open>
  Lines 117 to 125. \<open>isClient\<close> and \<open>animateText\<close> are those of the render that the call
  closed over; the animation is not run here but handed to \<open>requestAnimationFrame\<close>.
\<close>

definition on_success :: "attempt \<Rightarrow> string \<Rightarrow> world \<Rightarrow> world" where
  "on_success a t w =
     (let w1 = setIsFilterOpen False (setTranslatedText t w)
      in if isClient (closure a) then w1\<lparr>tasks := tasks w1 @ [AnimationFrame (closure a)]\<rparr>
         else w1)"

text \<open>The call from its resumption to its end: \<open>try\<close>, \<open>catch\<close>, \<open>finally\<close>.\<close>

definition resume :: "attempt \<Rightarrow> outcome \<Rightarrow> world \<Rightarrow> world" where
  "resume a out w =
     finally_block
       (case try_body (settle w a out) of
          Inl e \<Rightarrow> catch_block e w
        | Inr t \<Rightarrow> on_success a t w)"

subsection \<open>handleLevelSelect (lines 138 to 143)\<close>

text \<open>
  \<open>handleTranslate\<close> is called in the same render \<open>c\<close> as \<open>handleLevelSelect\<close>: the
  \<open>selectedLevel\<close> it reads is the one of \<open>c\<close>, not the one just handed to the setter.
\<close>

definition handleLevelSelect :: "ui_state \<Rightarrow> string \<Rightarrow> world \<Rightarrow> world" where
  "handleLevelSelect c levelId w =
     (let w1 = setSelectedLevel levelId w
      in if trim (inputText c) \<noteq> [] then handleTranslate c True w1 else w1)"

subsection \<open>handleCopy (lines 68 to 79)\<close>

text \<open>Up to the \<open>await\<close> of line 72: the text is handed to the clipboard.\<close>

definition handleCopy :: "ui_state \<Rightarrow> world \<Rightarrow> world" where
  "handleCopy c w =
     (if \<not> isClient c \<or> translatedText c = [] then w
      else w\<lparr>clipboard := clipboard w @ [translatedText c]\<rparr>)"

text \<open>Lines 73 to 78: after the clipboard has resolved (\<open>True\<close>) or rejected.\<close>

definition resume_copy :: "bool \<Rightarrow> world \<Rightarrow> world" where
  "resume_copy resolved w =
     (if resolved then
        (let w1 = setCopied True w in w1\<lparr>tasks := tasks w1 @ [Timeout 2000 ResetCopied]\<rparr>)
      else setError ''Failed to copy text'' w)"

subsection \<open>animateText (lines 46 to 66)\<close>

text \<open>
  The call of \<open>gsap.fromTo\<close> that the function makes, or \<open>None\<close> when it returns without
  one. The second argument is \<open>textRef.current\<close>: \<open>None\<close> for a null ref, else the
  children of the referenced element at that moment.
\<close>

definition animateText :: "ui_state \<Rightarrow> element list option \<Rightarrow> gsap_call option" where
  "animateText c ref =
     (if \<not> isClient c \<or> ref = None \<or> translatedText c = [] then None
      else
        case ref of
          None \<Rightarrow> None
        | Some elements \<Rightarrow>
            if length elements = 0 then None
            else Some \<lparr>targets = elements, fromVars = \<lparr>y = 50, opacity = 0\<rparr>,
                   toVars = \<lparr>y = 0, opacity = 1\<rparr>, duration = 1 / 2, stagger = 1 / 10,
                   ease = ''power1.out''\<rparr>)"

definition run_animateText :: "ui_state \<Rightarrow> world \<Rightarrow> world" where
  "run_animateText c w =
     (case animateText c (textRef w) of
        None \<Rightarrow> w
      | Some g \<Rightarrow> w\<lparr>gsap_calls := gsap_calls w @ [g]\<rparr>)"

subsection \<open>Rendering (lines 145 to 150 and 190 to 196)\<close>

text \<open>\<open>text.split('\n')\<close>: the pieces between the separators; one piece when there is none.\<close>

fun split :: "char \<Rightarrow> string \<Rightarrow> string list" where
  "split sep [] = [[]]"
| "split sep (ch # s) =
     (if ch = sep then [] # split sep s
      else case split sep s of
             [] \<Rightarrow> [[ch]]
           | line # rest \<Rightarrow> (ch # line) # rest)"

text \<open>One element for each line of the text, none for an empty text.\<close>

definition renderTranslatedText :: "string \<Rightarrow> element list" where
  "renderTranslatedText text = (if text = [] then [] else split (CHR 0x0A) text)"

text \<open>
  The children of the element that carries \<open>textRef\<close>, in the render of a state: one
  placeholder while \<open>loading\<close>, else the lines of \<open>translatedText\<close>.
\<close>

definition children :: "ui_state \<Rightarrow> element list" where
  "children u =
     (if loading u then [''Translating...''] else renderTranslatedText (translatedText u))"

text \<open>
  The renderer commits the state that a task of the host has written before a later task
  runs: the children of the referenced element are then those of the new state. The code
  relies on this when it defers the animation by a frame and 100 ms (comment of line
  120); a handler that reads \<open>textRef\<close> in the task that wrote the state still sees the
  children of the previous render.
\<close>

definition commit :: "world \<Rightarrow> world" where
  "commit w = w\<lparr>textRef := map_option (\<lambda>previous. children (ui w)) (textRef w)\<rparr>"

subsection \<open>Events\<close>

text \<open>
  A callback of the host's queues. The frame callback of line 122 sets the timer of line
  123; the timer of line 74 resets the \<open>copied\<close> flag.
\<close>

fun run_task :: "task \<Rightarrow> world \<Rightarrow> world" where
  "run_task (AnimationFrame c) w = w\<lparr>tasks := tasks w @ [Timeout 100 (AnimateText c)]\<rparr>"
| "run_task (Timeout d (AnimateText c)) w = run_animateText c w"
| "run_task (Timeout d ResetCopied) w = setCopied False w"

text \<open>
  What can happen to the mounted component. A click runs the handler of the current
  render, so its closure is the current state. The Translate button is disabled while
  \<open>loading\<close> or on blank input; the buttons "play again" and "copy" exist only while
  \<open>translatedText\<close> is non-empty; the level buttons are always enabled. Unmounting
  runs the cleanup of lines 39 to 43, and the renderer sets the ref to null.
\<close>

datatype event =
    Mount
  | Unmount
  | InputChange string
  | TranslateClick
  | LevelClick string
  | ToggleFilter
  | PlayAgainClick
  | CopyClick
  | FetchSettles nat outcome
  | ClipboardSettles bool
  | TaskRuns nat

fun dispatch :: "event \<Rightarrow> world \<Rightarrow> world" where
  "dispatch Mount w = setIsClient True w"
| "dispatch Unmount w =
     (case abortControllerRef w of None \<Rightarrow> w | Some h \<Rightarrow> abort h w)\<lparr>textRef := None\<rparr>"
| "dispatch (InputChange v) w = setInputText v w"
| "dispatch TranslateClick w =
     (if loading (ui w) \<or> trim (inputText (ui w)) = [] then w
      else handleTranslate (ui w) True w)"
| "dispatch (LevelClick levelId) w = handleLevelSelect (ui w) levelId w"
| "dispatch ToggleFilter w = setIsFilterOpen (\<not> isFilterOpen (ui w)) w"
| "dispatch PlayAgainClick w =
     (if translatedText (ui w) = [] then w else run_animateText (ui w) w)"
| "dispatch CopyClick w = (if translatedText (ui w) = [] then w else handleCopy (ui w) w)"
| "dispatch (FetchSettles h out) w =
     (case find (\<lambda>a. ctrl a = h) (inflight w) of
        None \<Rightarrow> w
      | Some a \<Rightarrow> resume a out (w\<lparr>inflight := filter (\<lambda>b. ctrl b \<noteq> h) (inflight w)\<rparr>))"
| "dispatch (ClipboardSettles resolved) w =
     (case clipboard w of
        [] \<Rightarrow> w
      | x # xs \<Rightarrow> resume_copy resolved (w\<lparr>clipboard := xs\<rparr>))"
| "dispatch (TaskRuns i) w =
     (if i < length (tasks w)
      then run_task (tasks w ! i) (w\<lparr>tasks := take i (tasks w) @ drop (Suc i) (tasks w)\<rparr>)
      else w)"

text \<open>One task of the host: the event is handled, then the renderer commits.\<close>

definition step :: "event \<Rightarrow> world \<Rightarrow> world" where
  "step e w = commit (dispatch e w)"

definition run :: "event list \<Rightarrow> world \<Rightarrow> world" where
  "run evs w = foldl (\<lambda>s e. step e s) w evs"

text \<open>The attempts that are pending and whose controller has not been aborted.\<close>

definition live :: "world \<Rightarrow> nat list" where
  "live w = map ctrl (filter (\<lambda>a. ctrl a \<notin> set (aborted w)) (inflight w))"

subsection \<open>Invariant of the controller numbering and scenarios\<close>

text \<open>
  Controllers are numbered in the order of their creation: every controller that is
  aborted, bound to a pending request or held by the ref has been created already.
\<close>

definition fresh :: "world \<Rightarrow> bool" where
  "fresh w \<longleftrightarrow>
     list_all (\<lambda>h. h < controllers w) (aborted w) \<and>
     list_all (\<lambda>a. ctrl a < controllers w) (inflight w) \<and>
     (\<forall>h\<in>set_option (abortControllerRef w). h < controllers w)"

text \<open>The events of a translation: typing, asking for one, and the network answering.\<close>

fun translation_event :: "event \<Rightarrow> bool" where
  "translation_event (InputChange v) = True"
| "translation_event TranslateClick = True"
| "translation_event (LevelClick levelId) = True"
| "translation_event (FetchSettles h out) = True"
| "translation_event e = False"

text \<open>
  A completion ends as cancelled when the error it catches is an \<open>AbortError\<close>
  (line 127).
\<close>

definition ends_cancelled :: "outcome \<Rightarrow> bool" where
  "ends_cancelled out =
     (case try_body out of Inl e \<Rightarrow> err_name e = ''AbortError'' | Inr t \<Rightarrow> False)"

text \<open>The user has typed a text.\<close>

definition typed_hello :: "event list" where
  "typed_hello = [Mount, InputChange ''hello'']"

text \<open>The user types and asks for a translation.\<close>

definition one_request :: "event list" where
  "one_request = [Mount, InputChange ''hi'', TranslateClick]"

text \<open>That request is answered with a translation.\<close>

definition first_answer :: "event list" where
  "first_answer = one_request @ [FetchSettles 0 (Response 200 (Json (Some ''yo'')))]"

text \<open>The user types, then picks two levels one after the other.\<close>

definition two_clicks :: "event list" where
  "two_clicks = [Mount, InputChange ''hi'', LevelClick ''heavy'', LevelClick ''crazy'']"

text \<open>
  The first request, aborted by the second click, is resumed; then the user picks a third
  level.
\<close>

definition three_clicks :: "event list" where
  "three_clicks = two_clicks @
     [FetchSettles 0 (FetchRejects (JsError ''AbortError'' ''signal is aborted'')),
      LevelClick ''mild'']"

text \<open>
  A first translation is shown; the user picks another level, and while that request is
  pending clicks "copy", which the clipboard refuses.
\<close>

definition copy_refused :: "event list" where
  "copy_refused = first_answer @ [LevelClick ''heavy'', CopyClick, ClipboardSettles False]"

text \<open>A first translation arrives; the frame callback runs and sets its timer.\<close>

definition first_result :: "event list" where
  "first_result = first_answer @ [TaskRuns 0]"

text \<open>
  The current render and the render of every pending call ran after the component was
  mounted: \<open>isClient\<close> is true in them.
\<close>

definition client_side :: "world \<Rightarrow> bool" where
  "client_side w \<longleftrightarrow>
     isClient (ui w) \<and> list_all (\<lambda>a. isClient (closure a)) (inflight w)"

text \<open>An answer of two lines.\<close>

definition two_lines :: string where
  "two_lines = ''omg hello'' @ CHR 0x0A # ''world fr fr''"

text \<open>With the first translation on the page, the user asks for another one.\<close>

definition second_request :: "event list" where
  "second_request = first_answer @ [TranslateClick]"

section \<open>Properties\<close>

subsection \<open>Auxiliary facts\<close>

lemmas setters = setInputText_def setTranslatedText_def setLoading_def setSelectedLevel_def
  setIsFilterOpen_def setCopied_def setIsClient_def setError_def

lemma find_snoc:
  "\<forall>a\<in>set xs. \<not> P a \<Longrightarrow> P x \<Longrightarrow> find P (xs @ [x]) = Some x"
  by (induction xs) simp_all

lemma find_live:
  assumes "h \<in> set (live w)"
  obtains a where "find (\<lambda>a. ctrl a = h) (inflight w) = Some a" and "ctrl a = h"
    and "h \<notin> set (aborted w)"
proof -
  from assms obtain b where b: "b \<in> set (inflight w)" "ctrl b = h" "h \<notin> set (aborted w)"
    by (auto simp: live_def)
  then have "find (\<lambda>a. ctrl a = h) (inflight w) \<noteq> None"
    by (auto simp: find_None_iff)
  then obtain a where a: "find (\<lambda>a. ctrl a = h) (inflight w) = Some a" by blast
  then have "ctrl a = h" by (auto simp: find_Some_iff)
  with a b(3) show thesis using that by blast
qed

lemma resume_not_aborted:
  "ctrl a \<notin> set (aborted w) \<Longrightarrow>
   resume a out w =
     finally_block (case try_body out of Inl e \<Rightarrow> catch_block e w | Inr t \<Rightarrow> on_success a t w)"
  by (simp add: resume_def settle_def)

lemma step_settles_live:
  assumes "find (\<lambda>a. ctrl a = h) (inflight w) = Some a" and "h \<notin> set (aborted w)"
  shows "step (FetchSettles h out) w =
     commit (finally_block (case try_body out of
        Inl e \<Rightarrow> catch_block e (w\<lparr>inflight := filter (\<lambda>b. ctrl b \<noteq> h) (inflight w)\<rparr>)
      | Inr t \<Rightarrow> on_success a t (w\<lparr>inflight := filter (\<lambda>b. ctrl b \<noteq> h) (inflight w)\<rparr>)))"
proof -
  from assms(1) have "ctrl a = h" by (auto simp: find_Some_iff)
  with assms show ?thesis by (simp add: step_def resume_not_aborted)
qed

text \<open>The commit writes \<open>textRef\<close> only.\<close>

lemma commit_keeps [simp]:
  "ui (commit w) = ui w"
  "abortControllerRef (commit w) = abortControllerRef w"
  "controllers (commit w) = controllers w"
  "aborted (commit w) = aborted w"
  "inflight (commit w) = inflight w"
  "fetches (commit w) = fetches w"
  "clipboard (commit w) = clipboard w"
  "tasks (commit w) = tasks w"
  "gsap_calls (commit w) = gsap_calls w"
  by (simp_all add: commit_def)

lemma ui_finally_catch:
  "err_name e \<noteq> ''AbortError'' \<Longrightarrow>
   ui (finally_block (catch_block e w)) =
     (ui w)\<lparr>error := (if err_message e = [] then ''Translation failed. Please try again.''
                      else err_message e),
            translatedText := [], loading := False\<rparr>"
  by (simp add: finally_block_def catch_block_def setters)

lemma ui_finally_success:
  "ui (finally_block (on_success a t w)) =
     (ui w)\<lparr>translatedText := t, isFilterOpen := False, loading := False\<rparr>"
  by (simp add: finally_block_def on_success_def setters Let_def)

lemma try_body_text: "try_body out = Inr t \<Longrightarrow> t \<noteq> []"
  by (cases out) (auto split: if_splits json_outcome.splits option.splits)

lemma handleTranslate_starts:
  assumes "trim (inputText c) \<noteq> []" and "\<not> (loading c \<and> \<not> forceTranslate)"
    and "find_level (selectedLevel c) = Some cfg"
  shows "ui (handleTranslate c forceTranslate w) = (ui w)\<lparr>loading := True, error := []\<rparr>"
    and "inflight (handleTranslate c forceTranslate w)
           = inflight w @ [\<lparr>ctrl = controllers w, closure = c\<rparr>]"
    and "set (aborted (handleTranslate c forceTranslate w))
           = set (aborted w) \<union> set_option (abortControllerRef w)"
  using assms
  by (auto simp add: handleTranslate_def Let_def setters abort_def split: option.splits)

text \<open>In a world numbered as above, a request just started is pending and not aborted.\<close>

lemma fresh_started_live:
  assumes "fresh w" and "trim (inputText c) \<noteq> []" and "\<not> (loading c \<and> \<not> forceTranslate)"
    and "find_level (selectedLevel c) = Some cfg"
  shows "find (\<lambda>a. ctrl a = controllers w) (inflight (handleTranslate c forceTranslate w))
           = Some \<lparr>ctrl = controllers w, closure = c\<rparr>"
    and "controllers w \<notin> set (aborted (handleTranslate c forceTranslate w))"
proof -
  from assms(1) have "\<forall>a\<in>set (inflight w). \<not> ctrl a = controllers w"
    by (auto simp: fresh_def list_all_iff)
  then show "find (\<lambda>a. ctrl a = controllers w) (inflight (handleTranslate c forceTranslate w))
           = Some \<lparr>ctrl = controllers w, closure = c\<rparr>"
    by (simp add: handleTranslate_starts(2) [OF assms(2-4)] find_snoc)
  from assms(1) show "controllers w \<notin> set (aborted (handleTranslate c forceTranslate w))"
    by (auto simp: handleTranslate_starts(3) [OF assms(2-4)] fresh_def list_all_iff)
qed

subsection \<open>The numbering invariant holds in every reachable world\<close>

lemma fresh_initial: "fresh initial_world"
  by (simp add: fresh_def initial_world_def)

lemma fresh_ui: "fresh (w\<lparr>ui := u\<rparr>) = fresh w"
  by (simp add: fresh_def)

lemma fresh_handleTranslate: "fresh w \<Longrightarrow> fresh (handleTranslate c f w)"
  by (auto simp add: fresh_def handleTranslate_def Let_def setters abort_def list_all_iff
        finally_block_def catch_block_def less_Suc_eq
      split: option.splits)

lemma fresh_resume: "fresh w \<Longrightarrow> fresh (resume a out w)"
  by (auto simp add: fresh_def resume_def finally_block_def catch_block_def on_success_def
        setters Let_def list_all_iff split: sum.splits)

lemma fresh_filter: "fresh w \<Longrightarrow> fresh (w\<lparr>inflight := filter P (inflight w)\<rparr>)"
  by (auto simp add: fresh_def list_all_iff)

lemma fresh_run_task: "fresh w \<Longrightarrow> fresh (run_task k (w\<lparr>tasks := ts\<rparr>))"
proof (cases k)
  case (AnimationFrame c)
  assume "fresh w" then show ?thesis using AnimationFrame
    by (auto simp add: fresh_def)
next
  case (Timeout d cb)
  assume "fresh w" then show ?thesis using Timeout
    by (cases cb) (auto simp add: fresh_def run_animateText_def setters split: option.splits)
qed

lemma fresh_dispatch: "fresh w \<Longrightarrow> fresh (dispatch e w)"
proof (cases e)
  case (FetchSettles h out)
  assume "fresh w" then show ?thesis using FetchSettles
    by (auto split: option.splits intro!: fresh_resume fresh_filter)
next
  case (LevelClick l)
  assume "fresh w"
  then have "fresh (setSelectedLevel l w)" by (simp add: setters fresh_ui)
  then show ?thesis using LevelClick
    by (auto simp add: handleLevelSelect_def Let_def intro: fresh_handleTranslate)
next
  case (TaskRuns i)
  assume "fresh w" then show ?thesis using TaskRuns by (auto intro: fresh_run_task)
next
  case TranslateClick
  assume "fresh w" then show ?thesis using TranslateClick
    by (auto intro: fresh_handleTranslate)
next
  case Unmount
  assume "fresh w" then show ?thesis using Unmount
    by (auto simp add: fresh_def abort_def list_all_iff split: option.splits)
next
  case (ClipboardSettles r)
  assume "fresh w" then show ?thesis using ClipboardSettles
    by (auto simp add: fresh_def resume_copy_def setters Let_def split: option.splits list.splits)
next
  case CopyClick
  assume "fresh w" then show ?thesis using CopyClick
    by (auto simp add: fresh_def handleCopy_def split: option.splits)
next
  case PlayAgainClick
  assume "fresh w" then show ?thesis using PlayAgainClick
    by (auto simp add: fresh_def run_animateText_def split: option.splits)
qed (simp_all add: setters fresh_ui)

lemma fresh_step: "fresh w \<Longrightarrow> fresh (step e w)"
  by (simp add: step_def commit_def fresh_def fresh_dispatch [unfolded fresh_def])

lemma fresh_run: "fresh w \<Longrightarrow> fresh (run evs w)"
  unfolding run_def by (induction evs arbitrary: w) (simp_all add: fresh_step)

subsection \<open>Facts about the scenarios\<close>

lemma one_request_pending:
  "find (\<lambda>a. ctrl a = 0) (inflight (run one_request initial_world))
     = Some \<lparr>ctrl = 0, closure = initial_ui\<lparr>inputText := ''hi'', isClient := True\<rparr>\<rparr>"
  "0 \<notin> set (aborted (run one_request initial_world))"
  by code_simp+

lemma typed_hello_ready:
  "fresh (run typed_hello initial_world)"
  "trim (inputText (ui (run typed_hello initial_world))) \<noteq> []"
  "\<not> (loading (ui (run typed_hello initial_world)) \<and> \<not> True)"
  "find_level (selectedLevel (ui (run typed_hello initial_world))) \<noteq> None"
  "controllers (run typed_hello initial_world) = 0"
  "ui (run typed_hello initial_world) = initial_ui\<lparr>inputText := ''hello'', isClient := True\<rparr>"
  by (simp add: fresh_run fresh_initial, code_simp+)

subsection \<open>Translation events and the copied flag\<close>

lemma handleTranslate_keeps_copy:
  "copied (ui (handleTranslate c f w)) = copied (ui w) \<and> tasks (handleTranslate c f w) = tasks w"
  by (auto simp add: handleTranslate_def Let_def setters abort_def finally_block_def
        catch_block_def split: option.splits)

lemma resume_keeps_copy:
  "copied (ui (resume a out w)) = copied (ui w) \<and> set (tasks w) \<subseteq> set (tasks (resume a out w))"
  by (auto simp add: resume_def finally_block_def catch_block_def on_success_def setters Let_def
        split: sum.splits)

lemma translation_dispatch_keeps_copy:
  assumes "translation_event e"
  shows "copied (ui (dispatch e w)) = copied (ui w) \<and>
         set (tasks w) \<subseteq> set (tasks (dispatch e w))"
proof (cases e)
  case (InputChange v)
  then show ?thesis by (simp add: setters)
next
  case TranslateClick
  then show ?thesis by (simp add: handleTranslate_keeps_copy)
next
  case (LevelClick l)
  then show ?thesis
    by (simp add: handleLevelSelect_def Let_def handleTranslate_keeps_copy setters)
next
  case (FetchSettles h out)
  show ?thesis
  proof (cases "find (\<lambda>a. ctrl a = h) (inflight w)")
    case None
    with FetchSettles show ?thesis by simp
  next
    case (Some a)
    with FetchSettles
      resume_keeps_copy [of a out "w\<lparr>inflight := filter (\<lambda>b. ctrl b \<noteq> h) (inflight w)\<rparr>"]
    show ?thesis by simp
  qed
qed (use assms in simp_all)

lemma translation_step_keeps_copy:
  assumes "translation_event e"
  shows "copied (ui (step e w)) = copied (ui w) \<and> set (tasks w) \<subseteq> set (tasks (step e w))"
  using translation_dispatch_keeps_copy [OF assms, of w] by (simp add: step_def)

lemma translation_run_keeps_copy:
  "list_all translation_event evs \<Longrightarrow>
   copied (ui (run evs w)) = copied (ui w) \<and> set (tasks w) \<subseteq> set (tasks (run evs w))"
proof (induction evs arbitrary: w)
  case Nil
  then show ?case by (simp add: run_def)
next
  case (Cons e evs)
  then have e: "translation_event e" and r: "list_all translation_event evs" by simp_all
  have "run (e # evs) w = run evs (step e w)" by (simp add: run_def)
  with Cons.IH [OF r, of "step e w"] translation_step_keeps_copy [OF e, of w]
  show ?case by auto
qed

subsection \<open>After mounting, every render has isClient true\<close>

lemma handleTranslate_keeps_client:
  "isClient (ui (handleTranslate c f w)) = isClient (ui w)"
  by (auto simp add: handleTranslate_def Let_def setters abort_def finally_block_def
        catch_block_def split: option.splits)

lemma resume_keeps_client: "isClient (ui (resume a out w)) = isClient (ui w)"
  by (auto simp add: resume_def finally_block_def catch_block_def on_success_def setters Let_def
        split: sum.splits)

lemma run_task_keeps_client: "isClient (ui (run_task k w)) = isClient (ui w)"
proof (cases k)
  case (AnimationFrame c)
  then show ?thesis by simp
next
  case (Timeout d cb)
  then show ?thesis
    by (cases cb) (auto simp add: run_animateText_def setters split: option.splits)
qed

lemma step_keeps_client: "isClient (ui w) \<Longrightarrow> isClient (ui (step e w))"
  unfolding step_def commit_keeps
  by (cases e)
    (auto simp add: setters abort_def handleLevelSelect_def Let_def handleTranslate_keeps_client
       resume_keeps_client run_task_keeps_client handleCopy_def resume_copy_def
       run_animateText_def
     split: option.splits list.splits)

lemma mounted_is_client: "isClient (ui (run evs (step Mount w)))"
proof -
  have "isClient (ui v) \<Longrightarrow> isClient (ui (run evs v))" for v
    unfolding run_def by (induction evs arbitrary: v) (simp_all add: step_keeps_client)
  then show ?thesis by (simp add: step_def setters)
qed

subsection \<open>Mounted components\<close>

lemma client_side_handleTranslate:
  "client_side w \<Longrightarrow> isClient c \<Longrightarrow> client_side (handleTranslate c f w)"
  by (auto simp add: client_side_def handleTranslate_def Let_def setters abort_def
        finally_block_def catch_block_def split: option.splits)

lemma client_side_resume:
  "client_side w \<Longrightarrow> client_side (resume a out (w\<lparr>inflight := filter P (inflight w)\<rparr>))"
  by (auto simp add: client_side_def resume_def finally_block_def catch_block_def on_success_def
        setters Let_def list_all_iff split: sum.splits)

lemma client_side_run_task: "client_side w \<Longrightarrow> client_side (run_task k (w\<lparr>tasks := ts\<rparr>))"
proof (cases k)
  case (AnimationFrame c)
  assume "client_side w" then show ?thesis using AnimationFrame by (simp add: client_side_def)
next
  case (Timeout d cb)
  assume "client_side w" then show ?thesis using Timeout
    by (cases cb)
      (auto simp add: client_side_def run_animateText_def setters split: option.splits)
qed

lemma client_side_dispatch: "client_side w \<Longrightarrow> client_side (dispatch e w)"
proof (cases e)
  case (FetchSettles h out)
  assume "client_side w" then show ?thesis using FetchSettles
    by (auto split: option.splits intro: client_side_resume)
next
  case (LevelClick l)
  assume c: "client_side w"
  then have "client_side (setSelectedLevel l w)" "isClient (ui w)"
    by (simp_all add: client_side_def setters)
  then show ?thesis using LevelClick
    by (auto simp add: handleLevelSelect_def Let_def intro: client_side_handleTranslate)
next
  case TranslateClick
  assume c: "client_side w"
  then have "isClient (ui w)" by (simp add: client_side_def)
  with c show ?thesis using TranslateClick
    by (auto intro: client_side_handleTranslate)
next
  case (TaskRuns i)
  assume "client_side w" then show ?thesis using TaskRuns by (auto intro: client_side_run_task)
next
  case Unmount
  assume "client_side w" then show ?thesis using Unmount
    by (auto simp add: client_side_def abort_def split: option.splits)
next
  case (ClipboardSettles r)
  assume "client_side w" then show ?thesis using ClipboardSettles
    by (auto simp add: client_side_def resume_copy_def setters Let_def split: list.splits)
next
  case CopyClick
  assume "client_side w" then show ?thesis using CopyClick
    by (auto simp add: client_side_def handleCopy_def)
next
  case PlayAgainClick
  assume "client_side w" then show ?thesis using PlayAgainClick
    by (auto simp add: client_side_def run_animateText_def split: option.splits)
qed (simp_all add: client_side_def setters)

lemma client_side_step: "client_side w \<Longrightarrow> client_side (step e w)"
  using client_side_dispatch [of w e] by (simp add: step_def client_side_def)

lemma client_side_mounted: "client_side (run evs (step Mount initial_world))"
proof -
  have "client_side v \<Longrightarrow> client_side (run evs v)" for v
    unfolding run_def by (induction evs arbitrary: v) (simp_all add: client_side_step)
  moreover have "client_side (step Mount initial_world)"
    by (simp add: client_side_def step_def setters initial_world_def)
  ultimately show ?thesis by blast
qed

lemma client_side_pending:
  "client_side w \<Longrightarrow> find (\<lambda>a. ctrl a = h) (inflight w) = Some a \<Longrightarrow> isClient (closure a)"
  by (auto simp add: client_side_def list_all_iff find_Some_iff)

lemma completion_world:
  assumes "find (\<lambda>a. ctrl a = h) (inflight w) = Some a" and "h \<notin> set (aborted w)"
    and "isClient (closure a)" and "ok status" and "t \<noteq> []"
  shows "step (FetchSettles h (Response status (Json (Some t)))) w
           = w\<lparr>ui := (ui w)\<lparr>translatedText := t, isFilterOpen := False, loading := False\<rparr>,
                abortControllerRef := None,
                textRef := map_option (\<lambda>previous. renderTranslatedText t) (textRef w),
                inflight := filter (\<lambda>b. ctrl b \<noteq> h) (inflight w),
                tasks := tasks w @ [AnimationFrame (closure a)]\<rparr>"
  using assms(3-5)
  by (simp add: step_settles_live [OF assms(1,2)] finally_block_def on_success_def setters
        Let_def commit_def children_def)

lemma second_request_pending:
  "find (\<lambda>a. ctrl a = 1) (inflight (run second_request initial_world))
     = Some \<lparr>ctrl = 1,
             closure = initial_ui\<lparr>inputText := ''hi'', translatedText := ''yo'',
                         isClient := True\<rparr>\<rparr>"
  "1 \<notin> set (aborted (run second_request initial_world))"
  "client_side (run second_request initial_world)"
  by code_simp+

lemma second_request_world:
  "length (tasks (run second_request initial_world)) = 1"
  "textRef (run second_request initial_world) = Some [''Translating...'']"
  "gsap_calls (run second_request initial_world) = []"
  by code_simp+

subsection \<open>Supersession: what the finally block does to a newer request\<close>

text \<open>
  C1. The claim: the completion of a cancelled attempt leaves the state untouched. In the
  code the \<open>return\<close> of line 127 is followed by the \<open>finally\<close> block. After two level
  clicks the second request (controller 1) is pending, \<open>loading\<close> is true and the ref
  holds controller 1; when the first, aborted request (controller 0) is resumed, \<open>error\<close>
  and \<open>translatedText\<close> stay as they are, but \<open>loading\<close> becomes false and the ref
  becomes null while request 1 is still pending.
\<close>

theorem cancelled_completion_clears_loading:
  "loading (ui (run two_clicks initial_world)) \<and>
   abortControllerRef (run two_clicks initial_world) = Some 1 \<and>
   aborted (run two_clicks initial_world) = [0] \<and>
   live (run two_clicks initial_world) = [1] \<and>
   ui (step (FetchSettles 0 (FetchRejects (JsError ''AbortError'' ''signal is aborted'')))
         (run two_clicks initial_world))
     = (ui (run two_clicks initial_world))\<lparr>loading := False\<rparr> \<and>
   abortControllerRef
     (step (FetchSettles 0 (FetchRejects (JsError ''AbortError'' ''signal is aborted'')))
        (run two_clicks initial_world)) = None \<and>
   live (step (FetchSettles 0 (FetchRejects (JsError ''AbortError'' ''signal is aborted'')))
          (run two_clicks initial_world)) = [1]"
  by code_simp

text \<open>
  C2. The claim: at most one request that has not been cancelled is pending at any time.
  In the code, once the cancelled first request has cleared the ref, a third click finds
  no controller to abort: requests 1 and 2 are then both pending, and neither is aborted.
\<close>

theorem two_live_attempts_after_three_clicks:
  "live (run three_clicks initial_world) = [1, 2] \<and>
   aborted (run three_clicks initial_world) = [0] \<and>
   map ctrl (inflight (run three_clicks initial_world)) = [1, 2]"
  by code_simp

text \<open>
  C3. The claim: a completion that is not cancelled sets \<open>loading\<close> to false and clears
  the ref only if the ref still holds its own controller. In the code line 134 clears the
  ref whatever it holds: with requests 1 and 2 pending and the ref holding controller 2,
  the successful completion of request 1 sets the ref to null (and \<open>loading\<close> to false)
  while request 2 is still pending.
\<close>

theorem completion_clears_newer_handle:
  "abortControllerRef (run three_clicks initial_world) = Some 2 \<and>
   live (run three_clicks initial_world) = [1, 2] \<and>
   abortControllerRef
     (step (FetchSettles 1 (Response 200 (Json (Some ''yo'')))) (run three_clicks initial_world))
     = None \<and>
   live (step (FetchSettles 1 (Response 200 (Json (Some ''yo'')))) (run three_clicks initial_world))
     = [2] \<and>
   \<not> loading
     (ui (step (FetchSettles 1 (Response 200 (Json (Some ''yo''))))
            (run three_clicks initial_world)))"
  by code_simp

subsection \<open>Selecting a level\<close>

text \<open>
  C4. The claim: selecting a level while the input is not blank issues a request that
  carries the prompt of the level just selected. In the code \<open>handleTranslate\<close> reads the
  \<open>selectedLevel\<close> of the render in which the click happened: with "medium" selected
  and "hello" typed, a click on "crazy" stores "crazy" as the selected level and issues
  one request, whose level is the prompt of "medium".
\<close>

theorem level_select_sends_previous_prompt:
  "selectedLevel (ui (run typed_hello initial_world)) = ''medium'' \<and>
   selectedLevel (ui (step (LevelClick ''crazy'') (run typed_hello initial_world))) = ''crazy'' \<and>
   fetches (step (LevelClick ''crazy'') (run typed_hello initial_world))
     = [\<lparr>body_text = ''hello'', body_level = ''Use moderate internet slang and abbreviations'',
         signal = 0\<rparr>] \<and>
   map_option prompt (find_level ''crazy'')
     = Some ''Go absolutely wild with internet slang and emoji''"
  by code_simp

subsection \<open>The guard of handleTranslate\<close>

text \<open>
  C5. Whenever the trimmed \<open>inputText\<close> is empty, \<open>handleTranslate\<close> returns the
  component as it found it, whatever the force flag: no state is written and no request
  is issued. The same holds whenever \<open>loading\<close> is true and the force flag is false.
\<close>

theorem translate_guard_noop:
  "(trim (inputText c) = [] \<longrightarrow> handleTranslate c forceTranslate w = w) \<and>
   (loading c \<and> \<not> forceTranslate \<longrightarrow> handleTranslate c forceTranslate w = w)"
  by (simp add: handleTranslate_def)

theorem translate_guard_noop_witness:
  "trim (inputText (initial_ui\<lparr>inputText := ''  ''\<rparr>)) = [] \<and>
   handleTranslate (initial_ui\<lparr>inputText := ''  ''\<rparr>) True initial_world = initial_world \<and>
   loading (initial_ui\<lparr>inputText := ''hi'', loading := True\<rparr>) \<and>
   handleTranslate (initial_ui\<lparr>inputText := ''hi'', loading := True\<rparr>) False initial_world
     = initial_world"
proof -
  have blank: "trim (inputText (initial_ui\<lparr>inputText := ''  ''\<rparr>)) = []"
    by (simp add: trim_def js_whitespace_def)
  have busy: "loading (initial_ui\<lparr>inputText := ''hi'', loading := True\<rparr>)"
    by simp
  from blank busy
    translate_guard_noop [of "initial_ui\<lparr>inputText := ''  ''\<rparr>" True initial_world]
    translate_guard_noop [of "initial_ui\<lparr>inputText := ''hi'', loading := True\<rparr>" False
      initial_world]
  show ?thesis by blast
qed

subsection \<open>Completions that fail\<close>

text \<open>
  C6, counterexample. The claim says that a 2xx answer without a \<open>translatedText\<close>
  field ends with \<open>error\<close> equal to "No translation received". When the body is
  \<open>null\<close>, reading the field at line 113 throws, and \<open>error\<close> is the message of that
  TypeError; when the body does not parse, \<open>error\<close> is the message of the error that
  \<open>response.json()\<close> rejects with.
\<close>

theorem null_body_stores_type_error:
  "0 \<in> set (live (run one_request initial_world)) \<and> ok 200 \<and>
   error (ui (step (FetchSettles 0 (Response 200 (JsonNull ''data is null'')))
                (run one_request initial_world)))
     = ''data is null'' \<and>
   error (ui (step (FetchSettles 0 (Response 200 (JsonNull ''data is null'')))
                (run one_request initial_world)))
     \<noteq> ''No translation received'' \<and>
   error (ui (step (FetchSettles 0
                      (Response 200 (JsonRejects (JsError ''SyntaxError''
                         ''Unexpected end of JSON input''))))
                (run one_request initial_world)))
     = ''Unexpected end of JSON input''"
  by code_simp

text \<open>
  C6, as amended. Let the request bound to controller \<open>h\<close> be pending and not aborted.
  If it is answered with a status outside 200 to 299, the state afterwards has \<open>error\<close>
  equal to "Translation failed: " followed by the status, \<open>translatedText\<close> empty and
  \<open>loading\<close> false. If it is answered with a status in that range and a body that
  parses to a value other than \<open>null\<close> whose field \<open>translatedText\<close> is absent or
  empty, \<open>error\<close> is "No translation received", \<open>translatedText\<close> is empty and
  \<open>loading\<close> is false. If the status is in that range and the body is \<open>null\<close> or
  does not parse, \<open>error\<close> is the message of the error thrown (the default message
  when that one is empty), \<open>translatedText\<close> is empty and \<open>loading\<close> is false.
\<close>

theorem failing_completion_sets_error:
  assumes "h \<in> set (live w)"
  shows "(\<not> ok status \<longrightarrow>
            error (ui (step (FetchSettles h (Response status body)) w))
              = ''Translation failed: '' @ show_nat status
          \<and> translatedText (ui (step (FetchSettles h (Response status body)) w)) = []
          \<and> \<not> loading (ui (step (FetchSettles h (Response status body)) w)))
       \<and> (ok status \<and> (field = None \<or> field = Some []) \<longrightarrow>
            error (ui (step (FetchSettles h (Response status (Json field))) w))
              = ''No translation received''
          \<and> translatedText (ui (step (FetchSettles h (Response status (Json field))) w)) = []
          \<and> \<not> loading (ui (step (FetchSettles h (Response status (Json field))) w)))
       \<and> (ok status \<longrightarrow>
            error (ui (step (FetchSettles h (Response status (JsonNull m))) w))
              = (if m = [] then ''Translation failed. Please try again.'' else m)
          \<and> translatedText (ui (step (FetchSettles h (Response status (JsonNull m))) w)) = []
          \<and> \<not> loading (ui (step (FetchSettles h (Response status (JsonNull m))) w)))
       \<and> (ok status \<and> err_name e \<noteq> ''AbortError'' \<longrightarrow>
            error (ui (step (FetchSettles h (Response status (JsonRejects e))) w))
              = (if err_message e = [] then ''Translation failed. Please try again.''
                 else err_message e)
          \<and> translatedText (ui (step (FetchSettles h (Response status (JsonRejects e))) w)) = []
          \<and> \<not> loading (ui (step (FetchSettles h (Response status (JsonRejects e))) w)))"
proof -
  from assms obtain a where a: "find (\<lambda>a. ctrl a = h) (inflight w) = Some a"
    and n: "h \<notin> set (aborted w)"
    by (rule find_live)
  show ?thesis
    by (auto simp add: step_settles_live [OF a n] ui_finally_catch)
qed

text \<open>Answers with status 500, with an empty object, with \<open>null\<close> and with no body.\<close>

theorem failing_completion_sets_error_witness:
  "0 \<in> set (live (run one_request initial_world)) \<and> \<not> ok 500 \<and> ok 200 \<and>
   error (ui (step (FetchSettles 0 (Response 500 (Json None))) (run one_request initial_world)))
     = ''Translation failed: 500'' \<and>
   translatedText
     (ui (step (FetchSettles 0 (Response 500 (Json None))) (run one_request initial_world))) = [] \<and>
   \<not> loading
     (ui (step (FetchSettles 0 (Response 500 (Json None))) (run one_request initial_world))) \<and>
   error (ui (step (FetchSettles 0 (Response 200 (Json None))) (run one_request initial_world)))
     = ''No translation received'' \<and>
   translatedText
     (ui (step (FetchSettles 0 (Response 200 (Json None))) (run one_request initial_world))) = [] \<and>
   \<not> loading
     (ui (step (FetchSettles 0 (Response 200 (Json None))) (run one_request initial_world))) \<and>
   error (ui (step (FetchSettles 0 (Response 200 (JsonNull ''data is null'')))
                (run one_request initial_world)))
     = ''data is null'' \<and>
   translatedText
     (ui (step (FetchSettles 0 (Response 200 (JsonNull ''data is null'')))
            (run one_request initial_world))) = [] \<and>
   err_name (JsError ''SyntaxError'' ''Unexpected end of JSON input'') \<noteq> ''AbortError'' \<and>
   error (ui (step (FetchSettles 0
                      (Response 200 (JsonRejects (JsError ''SyntaxError''
                         ''Unexpected end of JSON input''))))
                (run one_request initial_world)))
     = ''Unexpected end of JSON input''"
proof -
  have pending: "0 \<in> set (live (run one_request initial_world))"
    by code_simp
  have digits: "show_nat 500 = ''500''"
    by code_simp
  have status: "\<not> ok 500" "ok 200"
    by (simp_all add: ok_def)
  from failing_completion_sets_error [OF pending, where status = 500 and body = "Json None"]
    failing_completion_sets_error [OF pending, where status = 200 and field = None
      and m = "''data is null''"
      and e = "JsError ''SyntaxError'' ''Unexpected end of JSON input''"]
    status digits
  show ?thesis using pending by simp
qed

subsection \<open>Completions that succeed\<close>

text \<open>
  C7, counterexample. The claim says that the final state of every successful attempt has
  \<open>error\<close> cleared. A translation is shown, the user picks another level, and while
  that request (controller 1) is pending the clipboard refuses a copy: the request then
  succeeds, its text is stored, and \<open>error\<close> still holds the message of the copy.
\<close>

theorem success_keeps_copy_error:
  "1 \<in> set (live (run copy_refused initial_world)) \<and>
   translatedText
     (ui (step (FetchSettles 1 (Response 200 (Json (Some ''yo yo''))))
            (run copy_refused initial_world)))
     = ''yo yo'' \<and>
   \<not> loading
     (ui (step (FetchSettles 1 (Response 200 (Json (Some ''yo yo''))))
            (run copy_refused initial_world))) \<and>
   error
     (ui (step (FetchSettles 1 (Response 200 (Json (Some ''yo yo''))))
            (run copy_refused initial_world)))
     = ''Failed to copy text''"
  by code_simp

text \<open>
  C7, as amended. Let the request bound to controller \<open>h\<close> be pending and not aborted
  in a mounted component, and let it be answered with a status in 200 to 299 and a
  non-empty \<open>translatedText\<close>. The completion stores that text, sets \<open>loading\<close> to
  false, closes the filter panel and leaves every other state variable, \<open>error\<close>
  included, as it was; the attempt cleared \<open>error\<close> when it started, so when the answer
  is the next event after the start the final state has \<open>error\<close> empty. The completion
  does not run the Animator. It queues one frame callback; the renderer commits the lines
  of the new text as the children of the referenced element; the frame callback does
  nothing but set a timer of 100 ms; and that timer invokes \<open>animateText\<close> of the
  render of the attempt, on the page that shows the new lines. (In a component that has
  been mounted, \<open>isClient\<close> is true in the current render and in the render of every
  pending attempt.)
\<close>

theorem successful_completion:
  assumes "find (\<lambda>a. ctrl a = h) (inflight w) = Some a" and "h \<notin> set (aborted w)"
    and "client_side w" and "ok status" and "t \<noteq> []"
  shows "let w1 = step (FetchSettles h (Response status (Json (Some t)))) w;
             w2 = step (TaskRuns (length (tasks w))) w1;
             w3 = step (TaskRuns (length (tasks w))) w2
         in ui w1 = (ui w)\<lparr>translatedText := t, isFilterOpen := False, loading := False\<rparr> \<and>
            gsap_calls w1 = gsap_calls w \<and>
            textRef w1 = map_option (\<lambda>previous. renderTranslatedText t) (textRef w) \<and>
            tasks w1 = tasks w @ [AnimationFrame (closure a)] \<and>
            w2 = w1\<lparr>tasks := tasks w @ [Timeout 100 (AnimateText (closure a))]\<rparr> \<and>
            w3 = run_animateText (closure a) (w1\<lparr>tasks := tasks w\<rparr>) \<and>
            (fresh w0 \<and> trim (inputText c) \<noteq> [] \<and> \<not> (loading c \<and> \<not> forceTranslate) \<and>
             find_level (selectedLevel c) \<noteq> None \<longrightarrow>
               ui (handleTranslate c forceTranslate w0)
                 = (ui w0)\<lparr>loading := True, error := []\<rparr> \<and>
               ui (step (FetchSettles (controllers w0) (Response status (Json (Some t))))
                     (handleTranslate c forceTranslate w0))
                 = (ui w0)\<lparr>translatedText := t, isFilterOpen := False, loading := False,
                            error := []\<rparr>) \<and>
            client_side (run evs (step Mount initial_world))"
proof -
  from assms(1,3) have cl: "isClient (closure a)" by (rule client_side_pending [rotated])
  note w1 = completion_world [OF assms(1,2) cl assms(4,5)]
  define v where "v = step (FetchSettles h (Response status (Json (Some t)))) w"
  have v: "v = w\<lparr>ui := (ui w)\<lparr>translatedText := t, isFilterOpen := False, loading := False\<rparr>,
                abortControllerRef := None,
                textRef := map_option (\<lambda>previous. renderTranslatedText t) (textRef w),
                inflight := filter (\<lambda>b. ctrl b \<noteq> h) (inflight w),
                tasks := tasks w @ [AnimationFrame (closure a)]\<rparr>"
    unfolding v_def by (rule w1)
  have frame: "step (TaskRuns (length (tasks w))) v
      = v\<lparr>tasks := tasks w @ [Timeout 100 (AnimateText (closure a))]\<rparr>"
    using assms(5)
    by (simp add: v step_def commit_def children_def option.map_comp comp_def)
  have timer: "step (TaskRuns (length (tasks w)))
        (v\<lparr>tasks := tasks w @ [Timeout 100 (AnimateText (closure a))]\<rparr>)
      = run_animateText (closure a) (v\<lparr>tasks := tasks w\<rparr>)"
    using assms(5)
    by (auto simp add: v step_def commit_def children_def option.map_comp comp_def
          run_animateText_def split: option.splits)
  have direct: "ui (handleTranslate c forceTranslate w0)
                 = (ui w0)\<lparr>loading := True, error := []\<rparr> \<and>
               ui (step (FetchSettles (controllers w0) (Response status (Json (Some t))))
                     (handleTranslate c forceTranslate w0))
                 = (ui w0)\<lparr>translatedText := t, isFilterOpen := False, loading := False,
                            error := []\<rparr>"
    if start: "fresh w0 \<and> trim (inputText c) \<noteq> [] \<and> \<not> (loading c \<and> \<not> forceTranslate) \<and>
             find_level (selectedLevel c) \<noteq> None"
  proof -
    from start obtain cfg where cfg: "find_level (selectedLevel c) = Some cfg" by blast
    from start have f: "fresh w0" and i: "trim (inputText c) \<noteq> []"
      and l: "\<not> (loading c \<and> \<not> forceTranslate)" by simp_all
    show ?thesis
      using assms(4,5)
      by (simp add: step_settles_live [OF fresh_started_live [OF f i l cfg]] ui_finally_success
            handleTranslate_starts(1) [OF i l cfg])
  qed
  have first: "ui v = (ui w)\<lparr>translatedText := t, isFilterOpen := False, loading := False\<rparr>"
    "gsap_calls v = gsap_calls w"
    "textRef v = map_option (\<lambda>previous. renderTranslatedText t) (textRef w)"
    "tasks v = tasks w @ [AnimationFrame (closure a)]"
    by (simp_all add: v)
  from first frame timer direct client_side_mounted [of evs] show ?thesis
    unfolding Let_def v_def [symmetric] by simp
qed

text \<open>
  A second translation, answered with two lines: both are rendered by the completion and
  animated by the timer. And the example of the specification: the input is "hello", the
  level "medium", the answer "omg hello world fr fr" the next event after the request.
\<close>

theorem successful_completion_witness:
  "find (\<lambda>a. ctrl a = 1) (inflight (run second_request initial_world))
     = Some \<lparr>ctrl = 1,
             closure = initial_ui\<lparr>inputText := ''hi'', translatedText := ''yo'',
                         isClient := True\<rparr>\<rparr> \<and>
   1 \<notin> set (aborted (run second_request initial_world)) \<and>
   client_side (run second_request initial_world) \<and> ok 200 \<and> two_lines \<noteq> [] \<and>
   ui (step (FetchSettles 1 (Response 200 (Json (Some two_lines))))
         (run second_request initial_world))
     = (ui (run second_request initial_world))
         \<lparr>translatedText := two_lines, isFilterOpen := False, loading := False\<rparr> \<and>
   textRef (run second_request initial_world) = Some [''Translating...''] \<and>
   gsap_calls (step (FetchSettles 1 (Response 200 (Json (Some two_lines))))
         (run second_request initial_world)) = [] \<and>
   textRef (step (FetchSettles 1 (Response 200 (Json (Some two_lines))))
         (run second_request initial_world)) = Some [''omg hello'', ''world fr fr''] \<and>
   gsap_calls
     (step (TaskRuns 1)
        (step (FetchSettles 1 (Response 200 (Json (Some two_lines))))
           (run second_request initial_world))) = [] \<and>
   gsap_calls
     (step (TaskRuns 1)
        (step (TaskRuns 1)
           (step (FetchSettles 1 (Response 200 (Json (Some two_lines))))
              (run second_request initial_world))))
     = [\<lparr>targets = [''omg hello'', ''world fr fr''], fromVars = \<lparr>y = 50, opacity = 0\<rparr>,
         toVars = \<lparr>y = 0, opacity = 1\<rparr>, duration = 1 / 2, stagger = 1 / 10,
         ease = ''power1.out''\<rparr>] \<and>
   ''omg hello world fr fr'' \<noteq> [] \<and>
   fresh (run typed_hello initial_world) \<and>
   ui (step (FetchSettles 0 (Response 200 (Json (Some ''omg hello world fr fr''))))
         (handleTranslate (ui (run typed_hello initial_world)) True (run typed_hello initial_world)))
     = \<lparr>inputText = ''hello'', translatedText = ''omg hello world fr fr'', loading = False,
        selectedLevel = ''medium'', isFilterOpen = False, copied = False, isClient = True,
        error = []\<rparr>"
proof -
  have r: "ok 200" "two_lines \<noteq> []"
    by (simp_all add: ok_def two_lines_def)
  have r': "ok 200" "''omg hello world fr fr'' \<noteq> []"
    by (simp_all add: ok_def)
  have lines: "renderTranslatedText two_lines = [''omg hello'', ''world fr fr'']"
    by code_simp
  note a = successful_completion [OF second_request_pending r,
      unfolded Let_def second_request_world]
  note b = successful_completion [OF second_request_pending r',
      of "run typed_hello initial_world" "ui (run typed_hello initial_world)" True,
      unfolded Let_def]
  from a have shown: "textRef (step (FetchSettles 1 (Response 200 (Json (Some two_lines))))
         (run second_request initial_world)) = Some [''omg hello'', ''world fr fr'']"
    by (simp add: lines)
  from a have calls1: "gsap_calls (step (FetchSettles 1 (Response 200 (Json (Some two_lines))))
         (run second_request initial_world)) = []"
    by simp
  from a have second: "step (TaskRuns 1)
        (step (FetchSettles 1 (Response 200 (Json (Some two_lines))))
           (run second_request initial_world))
      = (step (FetchSettles 1 (Response 200 (Json (Some two_lines))))
           (run second_request initial_world))
          \<lparr>tasks := tasks (run second_request initial_world) @
             [Timeout 100 (AnimateText (closure \<lparr>ctrl = 1,
               closure = initial_ui\<lparr>inputText := ''hi'', translatedText := ''yo'',
                           isClient := True\<rparr>\<rparr>))]\<rparr>"
    by blast
  from a have third: "step (TaskRuns 1)
        (step (TaskRuns 1)
           (step (FetchSettles 1 (Response 200 (Json (Some two_lines))))
              (run second_request initial_world)))
      = run_animateText
          (closure \<lparr>ctrl = 1,
             closure = initial_ui\<lparr>inputText := ''hi'', translatedText := ''yo'',
                         isClient := True\<rparr>\<rparr>)
          ((step (FetchSettles 1 (Response 200 (Json (Some two_lines))))
              (run second_request initial_world))
             \<lparr>tasks := tasks (run second_request initial_world)\<rparr>)"
    by blast
  have queued: "gsap_calls
     (step (TaskRuns 1)
        (step (FetchSettles 1 (Response 200 (Json (Some two_lines))))
           (run second_request initial_world))) = []"
    unfolding second using calls1 by simp
  have animated: "gsap_calls
     (step (TaskRuns 1)
        (step (TaskRuns 1)
           (step (FetchSettles 1 (Response 200 (Json (Some two_lines))))
              (run second_request initial_world))))
     = [\<lparr>targets = [''omg hello'', ''world fr fr''], fromVars = \<lparr>y = 50, opacity = 0\<rparr>,
         toVars = \<lparr>y = 0, opacity = 1\<rparr>, duration = 1 / 2, stagger = 1 / 10,
         ease = ''power1.out''\<rparr>]"
    unfolding third using shown calls1
    by (simp add: run_animateText_def animateText_def initial_ui_def)
  from a have stored: "ui (step (FetchSettles 1 (Response 200 (Json (Some two_lines))))
         (run second_request initial_world))
     = (ui (run second_request initial_world))
         \<lparr>translatedText := two_lines, isFilterOpen := False, loading := False\<rparr>"
    by blast
  from b typed_hello_ready have direct:
    "ui (step (FetchSettles 0 (Response 200 (Json (Some ''omg hello world fr fr''))))
         (handleTranslate (ui (run typed_hello initial_world)) True (run typed_hello initial_world)))
     = \<lparr>inputText = ''hello'', translatedText = ''omg hello world fr fr'', loading = False,
        selectedLevel = ''medium'', isFilterOpen = False, copied = False, isClient = True,
        error = []\<rparr>"
    by (simp add: initial_ui_def)
  from second_request_pending second_request_world(2) typed_hello_ready(1) r r'(2)
    stored shown calls1 queued animated direct
  show ?thesis by (intro conjI)
qed

subsection \<open>The Animator\<close>

text \<open>
  C8. The claim: every invocation of the Animator on a non-empty rendered sequence resets
  the elements to the initial state and animates them. In the code the invocation that
  the first successful translation schedules is the \<open>animateText\<close> of the render in
  which the request was made, where \<open>translatedText\<close> was still empty: when its timer
  fires, the result is on the page as one line, and line 47 returns without a call of
  the engine. A click on "play again" in the same state does call the engine on that
  line, from offset 50 and transparent.
\<close>

theorem first_result_not_animated:
  "translatedText (ui (run first_result initial_world)) = ''yo'' \<and>
   textRef (run first_result initial_world) = Some [''yo''] \<and>
   tasks (run first_result initial_world)
     = [Timeout 100 (AnimateText (initial_ui\<lparr>inputText := ''hi'', isClient := True\<rparr>))] \<and>
   gsap_calls (step (TaskRuns 0) (run first_result initial_world)) = [] \<and>
   tasks (step (TaskRuns 0) (run first_result initial_world)) = [] \<and>
   gsap_calls (step PlayAgainClick (run first_result initial_world))
     = [\<lparr>targets = [''yo''], fromVars = \<lparr>y = 50, opacity = 0\<rparr>,
         toVars = \<lparr>y = 0, opacity = 1\<rparr>, duration = 1 / 2, stagger = 1 / 10,
         ease = ''power1.out''\<rparr>]"
  by code_simp

subsection \<open>Copying the result\<close>

text \<open>
  C9. Let \<open>handleCopy\<close> be called from a render in which \<open>isClient\<close> is true and
  \<open>translatedText\<close> is non-empty. It hands that text to the clipboard. When the
  clipboard resolves, \<open>copied\<close> is true and a timer of 2000 ms that resets it is set;
  after any sequence of translation events (typing, asking for a translation, picking a
  level, answers of the network) \<open>copied\<close> is still true and that timer is still set;
  when the timer fires, \<open>copied\<close> is false. When the clipboard rejects, \<open>error\<close> is
  "Failed to copy text" and \<open>copied\<close> is unchanged. (\<open>isClient\<close> is true in every
  render that follows the mounting of the component.)
\<close>

theorem copy_flag_resets:
  assumes "isClient c" and "translatedText c \<noteq> []"
  shows "clipboard (handleCopy c w) = clipboard w @ [translatedText c] \<and>
         copied (ui (step (ClipboardSettles True) (handleCopy c w))) \<and>
         tasks (step (ClipboardSettles True) (handleCopy c w))
           = tasks w @ [Timeout 2000 ResetCopied] \<and>
         (list_all translation_event evs \<longrightarrow>
            copied (ui (run evs (step (ClipboardSettles True) (handleCopy c w)))) \<and>
            Timeout 2000 ResetCopied
              \<in> set (tasks (run evs (step (ClipboardSettles True) (handleCopy c w))))) \<and>
         (i < length (tasks w2) \<and> tasks w2 ! i = Timeout 2000 ResetCopied \<longrightarrow>
            \<not> copied (ui (step (TaskRuns i) w2))) \<and>
         error (ui (step (ClipboardSettles False) (handleCopy c w))) = ''Failed to copy text'' \<and>
         copied (ui (step (ClipboardSettles False) (handleCopy c w))) = copied (ui w) \<and>
         isClient (ui (run evs0 (step Mount w0)))"
proof -
  from assms have h: "handleCopy c w = w\<lparr>clipboard := clipboard w @ [translatedText c]\<rparr>"
    by (simp add: handleCopy_def)
  have settled: "copied (ui (step (ClipboardSettles True) (handleCopy c w)))"
    "tasks (step (ClipboardSettles True) (handleCopy c w)) = tasks w @ [Timeout 2000 ResetCopied]"
    by (auto simp add: h step_def resume_copy_def setters Let_def split: list.splits)
  have interim: "copied (ui (run evs (step (ClipboardSettles True) (handleCopy c w)))) \<and>
            Timeout 2000 ResetCopied
              \<in> set (tasks (run evs (step (ClipboardSettles True) (handleCopy c w))))"
    if "list_all translation_event evs"
    using translation_run_keeps_copy [OF that, of "step (ClipboardSettles True) (handleCopy c w)"]
      settled by auto
  have fires: "\<not> copied (ui (step (TaskRuns i) w2))"
    if "i < length (tasks w2) \<and> tasks w2 ! i = Timeout 2000 ResetCopied"
    using that by (simp add: step_def setters)
  have refused: "error (ui (step (ClipboardSettles False) (handleCopy c w))) = ''Failed to copy text''"
    "copied (ui (step (ClipboardSettles False) (handleCopy c w))) = copied (ui w)"
    by (auto simp add: h step_def resume_copy_def setters split: list.splits)
  from h settled interim fires refused mounted_is_client [of evs0 w0] show ?thesis by simp
qed

text \<open>
  A translation is shown and copied; the user then picks another level and its answer
  arrives; the timer of the copy is the second of the pending callbacks.
\<close>

theorem copy_flag_resets_witness:
  "isClient (ui (run first_answer initial_world)) \<and>
   translatedText (ui (run first_answer initial_world)) \<noteq> [] \<and>
   list_all translation_event
     [LevelClick ''heavy'', FetchSettles 1 (Response 200 (Json (Some ''yo yo'')))] \<and>
   copied
     (ui (run [LevelClick ''heavy'', FetchSettles 1 (Response 200 (Json (Some ''yo yo'')))]
            (step (ClipboardSettles True)
               (handleCopy (ui (run first_answer initial_world))
                  (run first_answer initial_world))))) \<and>
   1 < length
         (tasks (step (ClipboardSettles True)
                   (handleCopy (ui (run first_answer initial_world))
                      (run first_answer initial_world)))) \<and>
   tasks (step (ClipboardSettles True)
            (handleCopy (ui (run first_answer initial_world))
               (run first_answer initial_world))) ! 1
     = Timeout 2000 ResetCopied \<and>
   \<not> copied
       (ui (step (TaskRuns 1)
              (step (ClipboardSettles True)
                 (handleCopy (ui (run first_answer initial_world))
                    (run first_answer initial_world))))) \<and>
   error
     (ui (step (ClipboardSettles False)
            (handleCopy (ui (run first_answer initial_world))
               (run first_answer initial_world))))
     = ''Failed to copy text''"
proof -
  have c: "isClient (ui (run first_answer initial_world))"
    "translatedText (ui (run first_answer initial_world)) \<noteq> []"
    by code_simp+
  have e: "list_all translation_event
     [LevelClick ''heavy'', FetchSettles 1 (Response 200 (Json (Some ''yo yo'')))]"
    by simp
  have k: "length (tasks (run first_answer initial_world)) = 1"
    by code_simp
  note a = copy_flag_resets [OF c, of "run first_answer initial_world"
      "[LevelClick ''heavy'', FetchSettles 1 (Response 200 (Json (Some ''yo yo'')))]" 1
      "step (ClipboardSettles True)
         (handleCopy (ui (run first_answer initial_world)) (run first_answer initial_world))"]
  from a k have t: "1 < length
         (tasks (step (ClipboardSettles True)
                   (handleCopy (ui (run first_answer initial_world))
                      (run first_answer initial_world)))) \<and>
   tasks (step (ClipboardSettles True)
            (handleCopy (ui (run first_answer initial_world))
               (run first_answer initial_world))) ! 1
     = Timeout 2000 ResetCopied"
    by (simp add: nth_append)
  from a c e t show ?thesis by simp
qed

subsection \<open>Result and error\<close>

text \<open>
  C10, counterexample. The claim says that after every completion that is not cancelled
  at most one of \<open>translatedText\<close> and \<open>error\<close> is non-empty. When the clipboard has
  refused a copy while the request was pending, the successful completion of that request
  leaves both non-empty.
\<close>

theorem result_and_error_both_set:
  "1 \<in> set (live (run copy_refused initial_world)) \<and>
   \<not> ends_cancelled (Response 200 (Json (Some ''sup'')))  \<and>
   translatedText
     (ui (step (FetchSettles 1 (Response 200 (Json (Some ''sup'')))) (run copy_refused initial_world)))
     \<noteq> [] \<and>
   error
     (ui (step (FetchSettles 1 (Response 200 (Json (Some ''sup'')))) (run copy_refused initial_world)))
     \<noteq> []"
  by code_simp

text \<open>
  C10, as amended. Let the request bound to controller \<open>h\<close> be pending and not aborted,
  and let its completion not end as cancelled. If it fails, \<open>translatedText\<close> is empty
  and \<open>error\<close> is non-empty afterwards. If it succeeds, \<open>translatedText\<close> is the
  non-empty text received and \<open>error\<close> is what it was before the completion. So at most
  one of the two is non-empty whenever \<open>error\<close> was empty when the answer arrived, and
  in particular when the answer is the next event after the start of the attempt.
\<close>

theorem result_or_error:
  assumes "find (\<lambda>a. ctrl a = h) (inflight w) = Some a" and "h \<notin> set (aborted w)"
    and "\<not> ends_cancelled out"
  shows "(case try_body out of
            Inl e \<Rightarrow> translatedText (ui (step (FetchSettles h out) w)) = [] \<and>
                     error (ui (step (FetchSettles h out) w)) \<noteq> []
          | Inr t \<Rightarrow> translatedText (ui (step (FetchSettles h out) w)) = t \<and> t \<noteq> [] \<and>
                     error (ui (step (FetchSettles h out) w)) = error (ui w)) \<and>
         (error (ui w) = [] \<longrightarrow>
            translatedText (ui (step (FetchSettles h out) w)) = [] \<or>
            error (ui (step (FetchSettles h out) w)) = []) \<and>
         (fresh w0 \<and> trim (inputText c) \<noteq> [] \<and> \<not> (loading c \<and> \<not> forceTranslate) \<and>
          find_level (selectedLevel c) \<noteq> None \<longrightarrow>
            translatedText (ui (step (FetchSettles (controllers w0) out)
                                  (handleTranslate c forceTranslate w0))) = [] \<or>
            error (ui (step (FetchSettles (controllers w0) out)
                         (handleTranslate c forceTranslate w0))) = [])"
proof -
  have general: "(case try_body out of
            Inl e \<Rightarrow> translatedText (ui (step (FetchSettles k out) v)) = [] \<and>
                     error (ui (step (FetchSettles k out) v)) \<noteq> []
          | Inr t \<Rightarrow> translatedText (ui (step (FetchSettles k out) v)) = t \<and> t \<noteq> [] \<and>
                     error (ui (step (FetchSettles k out) v)) = error (ui v))"
    if "find (\<lambda>a. ctrl a = k) (inflight v) = Some b" and "k \<notin> set (aborted v)" for k v b
  proof (cases "try_body out")
    case (Inl e)
    with assms(3) have "err_name e \<noteq> ''AbortError''" by (simp add: ends_cancelled_def)
    with Inl show ?thesis
      by (simp add: step_settles_live [OF that] ui_finally_catch)
  next
    case (Inr t)
    then show ?thesis
      by (simp add: step_settles_live [OF that] ui_finally_success try_body_text)
  qed
  have direct: "translatedText (ui (step (FetchSettles (controllers w0) out)
                                  (handleTranslate c forceTranslate w0))) = [] \<or>
            error (ui (step (FetchSettles (controllers w0) out)
                         (handleTranslate c forceTranslate w0))) = []"
    if start: "fresh w0 \<and> trim (inputText c) \<noteq> [] \<and> \<not> (loading c \<and> \<not> forceTranslate) \<and>
          find_level (selectedLevel c) \<noteq> None"
  proof -
    from start obtain cfg where cfg: "find_level (selectedLevel c) = Some cfg" by blast
    from start have f: "fresh w0" and i: "trim (inputText c) \<noteq> []"
      and l: "\<not> (loading c \<and> \<not> forceTranslate)" by simp_all
    from general [OF fresh_started_live [OF f i l cfg]] handleTranslate_starts(1) [OF i l cfg]
    show ?thesis by (auto split: sum.splits)
  qed
  from general [OF assms(1,2)] direct show ?thesis
    by (auto split: sum.splits)
qed

text \<open>A request answered with status 503, in a world where \<open>error\<close> is empty.\<close>

theorem result_or_error_witness:
  "find (\<lambda>a. ctrl a = 0) (inflight (run one_request initial_world))
     = Some \<lparr>ctrl = 0, closure = initial_ui\<lparr>inputText := ''hi'', isClient := True\<rparr>\<rparr> \<and>
   0 \<notin> set (aborted (run one_request initial_world)) \<and>
   \<not> ends_cancelled (Response 503 (Json None)) \<and>
   error (ui (run one_request initial_world)) = [] \<and>
   fresh (run typed_hello initial_world) \<and>
   translatedText
     (ui (step (FetchSettles 0 (Response 503 (Json None))) (run one_request initial_world))) = [] \<and>
   error (ui (step (FetchSettles 0 (Response 503 (Json None))) (run one_request initial_world)))
     \<noteq> [] \<and>
   (translatedText
      (ui (step (FetchSettles 0 (Response 503 (Json None)))
             (handleTranslate (ui (run typed_hello initial_world)) True
                (run typed_hello initial_world)))) = [] \<or>
    error
      (ui (step (FetchSettles 0 (Response 503 (Json None)))
             (handleTranslate (ui (run typed_hello initial_world)) True
                (run typed_hello initial_world)))) = [])"
proof -
  have n: "\<not> ends_cancelled (Response 503 (Json None))"
    by (simp add: ends_cancelled_def ok_def)
  have e: "error (ui (run one_request initial_world)) = []"
    by code_simp
  have b: "try_body (Response 503 (Json None))
             = Inl (JsError ''Error'' (''Translation failed: '' @ show_nat 503))"
    by (simp add: ok_def)
  from result_or_error [OF one_request_pending n,
      of "run typed_hello initial_world" "ui (run typed_hello initial_world)" True]
    one_request_pending typed_hello_ready n e b
  show ?thesis by simp
qed

end
